theory Spec2Isabelle
  imports Main "HOL-Library.Sublist"
begin

section \<open>Book Finder: search, filter stage and rendering of the two components\<close>

text \<open>
  The repository holds one React component twice: the typed one (\<open>BookFinder.tsx\<close>,
  definitions prefixed \<open>tsx_\<close>) and the untyped one (\<open>Books.jsx\<close>, definitions
  prefixed \<open>jsx_\<close>). Each source function is embedded once per file, under its own name.

  Conventions of the embedding:
  \<^item> a JavaScript string is the \<open>string\<close> of the UTF-8 bytes of its text (a lone
    surrogate, which has no UTF-8 form, is outside the model). Equality, emptiness,
    \<open>trim\<close>, \<open>parseInt\<close> and \<open>encodeURIComponent\<close> are exact on this
    representation; \<open>toUpperCase\<close> is exact on ASCII letters and leaves every other
    byte as it is;
  \<^item> a JavaScript number that holds an integer is an \<open>int\<close>; \<open>NaN\<close> and
    \<open>undefined\<close> are \<open>None\<close> where a number is expected. Integers beyond
    \<open>2 ^ 53\<close>, which a double rounds, are outside the model;
  \<^item> an optional field of a record is an \<open>option\<close>: \<open>None\<close> is the absent field;
  \<^item> an exception is a \<open>js_error\<close>, and an expression that can throw has a result of
    type \<open>js_error + 'a\<close>;
  \<^item> the value of \<open>a || b\<close> that React renders is a \<open>js_value\<close>.
\<close>

subsection \<open>JavaScript builtins used by the components\<close>

datatype js_value = Num int | Str string

datatype js_error = TypeError

text \<open>
  \<open>Array.prototype.filter\<close> with a callback that can throw: the callback is called on
  the elements in order, and its first exception ends the call.
\<close>

fun filterE :: "('a \<Rightarrow> js_error + bool) \<Rightarrow> 'a list \<Rightarrow> js_error + 'a list" where
  "filterE p [] = Inr []"
| "filterE p (x # xs) =
     (case p x of
        Inl e \<Rightarrow> Inl e
      | Inr keep \<Rightarrow>
          (case filterE p xs of
             Inl e \<Rightarrow> Inl e
           | Inr r \<Rightarrow> Inr (if keep then x # r else r)))"

text \<open>Truthiness of a string and of an optional number (\<open>undefined\<close> and \<open>0\<close> are falsy).\<close>

definition truthyStr :: "string \<Rightarrow> bool" where
  "truthyStr s = (s \<noteq> [])"

definition truthyNum :: "int option \<Rightarrow> bool" where
  "truthyNum v = (case v of None \<Rightarrow> False | Some n \<Rightarrow> n \<noteq> 0)"

text \<open>\<open>a >= b\<close> and \<open>a <= b\<close> on numbers: false as soon as one side is \<open>NaN\<close>.\<close>

definition numGe :: "int option \<Rightarrow> int option \<Rightarrow> bool" where
  "numGe a b = (case a of None \<Rightarrow> False
                | Some x \<Rightarrow> (case b of None \<Rightarrow> False | Some y \<Rightarrow> x \<ge> y))"

definition numLe :: "int option \<Rightarrow> int option \<Rightarrow> bool" where
  "numLe a b = (case a of None \<Rightarrow> False
                | Some x \<Rightarrow> (case b of None \<Rightarrow> False | Some y \<Rightarrow> x \<le> y))"

text \<open>
  The white-space characters that \<open>trim\<close> and \<open>parseInt\<close> strip (the productions
  \<open>WhiteSpace\<close> and \<open>LineTerminator\<close> of ECMAScript), each as its UTF-8 bytes:
  U+0009 to U+000D, U+0020, U+00A0, U+1680, U+2000 to U+200A, U+2028, U+2029, U+202F,
  U+205F, U+3000 and U+FEFF.
\<close>

definition whiteSpace :: "string list" where
  "whiteSpace =
     [[CHR 0x09], [CHR 0x0A], [CHR 0x0B], [CHR 0x0C], [CHR 0x0D], [CHR 0x20],
      [CHR 0xC2, CHR 0xA0],
      [CHR 0xE1, CHR 0x9A, CHR 0x80],
      [CHR 0xE2, CHR 0x80, CHR 0x80], [CHR 0xE2, CHR 0x80, CHR 0x81],
      [CHR 0xE2, CHR 0x80, CHR 0x82], [CHR 0xE2, CHR 0x80, CHR 0x83],
      [CHR 0xE2, CHR 0x80, CHR 0x84], [CHR 0xE2, CHR 0x80, CHR 0x85],
      [CHR 0xE2, CHR 0x80, CHR 0x86], [CHR 0xE2, CHR 0x80, CHR 0x87],
      [CHR 0xE2, CHR 0x80, CHR 0x88], [CHR 0xE2, CHR 0x80, CHR 0x89],
      [CHR 0xE2, CHR 0x80, CHR 0x8A],
      [CHR 0xE2, CHR 0x80, CHR 0xA8], [CHR 0xE2, CHR 0x80, CHR 0xA9],
      [CHR 0xE2, CHR 0x80, CHR 0xAF],
      [CHR 0xE2, CHR 0x81, CHR 0x9F],
      [CHR 0xE3, CHR 0x80, CHR 0x80],
      [CHR 0xEF, CHR 0xBB, CHR 0xBF]]"

definition startsWith :: "string \<Rightarrow> string \<Rightarrow> bool" where
  "startsWith s w = (take (length w) s = w)"

text \<open>
  Removing, from the front of a text, every occurrence of one of the given byte
  sequences (none of them empty), until the text starts with none of them.
\<close>

fun stripLeading :: "string list \<Rightarrow> string \<Rightarrow> string" where
  "stripLeading pats [] = []"
| "stripLeading pats (c # cs) =
     (case find (startsWith (c # cs)) pats of
        None \<Rightarrow> c # cs
      | Some w \<Rightarrow> stripLeading pats (drop (length w - 1) cs))"

text \<open>\<open>String.prototype.trim\<close>: white space is removed at both ends.\<close>

definition trimStart :: "string \<Rightarrow> string" where
  "trimStart s = stripLeading whiteSpace s"

definition trimEnd :: "string \<Rightarrow> string" where
  "trimEnd s = rev (stripLeading (map rev whiteSpace) (rev s))"

definition trim :: "string \<Rightarrow> string" where
  "trim s = trimEnd (trimStart s)"

text \<open>
  \<open>parseInt(string)\<close> with no radix: leading white space is skipped, one sign is read,
  a prefix \<open>0x\<close> or \<open>0X\<close> selects radix 16 (radix 10 otherwise), and the longest run
  of digits of that radix is the number. No digit at all gives \<open>NaN\<close>, here \<open>None\<close>.
\<close>

definition digitValue :: "char \<Rightarrow> nat option" where
  "digitValue c =
     (let n = (of_char c :: nat) in
      if 48 \<le> n \<and> n \<le> 57 then Some (n - 48)
      else if 97 \<le> n \<and> n \<le> 122 then Some (n - 87)
      else if 65 \<le> n \<and> n \<le> 90 then Some (n - 55)
      else None)"

definition isRadixDigit :: "nat \<Rightarrow> char \<Rightarrow> bool" where
  "isRadixDigit R c = (case digitValue c of None \<Rightarrow> False | Some d \<Rightarrow> d < R)"

definition radixValue :: "nat \<Rightarrow> string \<Rightarrow> nat" where
  "radixValue R Z =
     foldl (\<lambda>acc c. case digitValue c of None \<Rightarrow> acc * R | Some d \<Rightarrow> acc * R + d) 0 Z"

definition parseInt :: "string \<Rightarrow> int option" where
  "parseInt str =
     (let S = trimStart str;
          sign = (case S of [] \<Rightarrow> (1::int) | c # _ \<Rightarrow> if c = CHR ''-'' then - 1 else 1);
          S1 = (case S of [] \<Rightarrow> S
                | c # rest \<Rightarrow> if c = CHR ''+'' \<or> c = CHR ''-'' then rest else S);
          hex = (take 2 S1 = ''0x'' \<or> take 2 S1 = ''0X'');
          R = (if hex then 16 else 10);
          S2 = (if hex then drop 2 S1 else S1);
          Z = takeWhile (isRadixDigit R) S2
      in if Z = [] then None else Some (sign * int (radixValue R Z)))"

text \<open>
  \<open>encodeURIComponent\<close>: letters, digits and \<open>- _ . ! ~ * ' ( )\<close> are kept, every
  other byte becomes \<open>%XX\<close> in upper-case hexadecimal.
\<close>

definition uriUnreserved :: "char \<Rightarrow> bool" where
  "uriUnreserved c =
     (let n = (of_char c :: nat) in
      (65 \<le> n \<and> n \<le> 90) \<or> (97 \<le> n \<and> n \<le> 122) \<or> (48 \<le> n \<and> n \<le> 57)
      \<or> c \<in> set ''-_.!~*()'' \<or> n = 39)"

definition hexDigit :: "nat \<Rightarrow> char" where
  "hexDigit n = (if n < 10 then char_of (48 + n) else char_of (55 + n))"

definition percentEncode :: "char \<Rightarrow> string" where
  "percentEncode c =
     (let n = (of_char c :: nat) in [CHR ''%'', hexDigit (n div 16), hexDigit (n mod 16)])"

definition encodeURIComponent :: "string \<Rightarrow> string" where
  "encodeURIComponent s =
     concat (map (\<lambda>c. if uriUnreserved c then [c] else percentEncode c) s)"

text \<open>\<open>Array.prototype.join\<close> on an array of strings, and \<open>String.prototype.toUpperCase\<close>.\<close>

fun join :: "string \<Rightarrow> string list \<Rightarrow> string" where
  "join sep [] = []"
| "join sep [x] = x"
| "join sep (x # y # ys) = x @ sep @ join sep (y # ys)"

definition upperChar :: "char \<Rightarrow> char" where
  "upperChar c =
     (let n = (of_char c :: nat) in if 97 \<le> n \<and> n \<le> 122 then char_of (n - 32) else c)"

definition toUpperCase :: "string \<Rightarrow> string" where
  "toUpperCase s = map upperChar s"

text \<open>The decimal text of an integer, as a template literal inserts it.\<close>

fun showNat :: "nat \<Rightarrow> string" where
  "showNat n = (if n < 10 then [char_of (48 + n)] else showNat (n div 10) @ [char_of (48 + n mod 10)])"

declare showNat.simps [simp del]

definition showInt :: "int \<Rightarrow> string" where
  "showInt i = (if i < 0 then CHR ''-'' # showNat (nat (- i)) else showNat (nat i))"

subsection \<open>Data model\<close>

text \<open>The record of one book, as the search endpoint returns it (\<open>interface Book\<close>).\<close>

record book =
  key :: string
  title :: string
  author_name :: "string list option"
  first_publish_year :: "int option"
  cover_i :: "int option"
  ebook_access :: "string option"
  edition_count :: "int option"
  language :: "string list option"
  subject :: "string list option"
  publisher :: "string list option"

text \<open>The filter criteria (\<open>interface Filters\<close>): the two year bounds are the raw input text.\<close>

record filters =
  hasEbook :: bool
  yearFrom :: string
  yearTo :: string

text \<open>
  The component's state: one field per \<open>useState\<close> hook. The handler stores in
  \<open>books\<close> what the response holds, so an element can be \<open>null\<close>, here \<open>None\<close>.
\<close>

record state =
  searchQuery :: string
  searchType :: string
  books :: "book option list"
  loading :: bool
  error :: string
  selectedBook :: "book option"
  filters :: filters
  showFilters :: bool

text \<open>
  What the two awaited calls of a search can deliver:
  \<^item> \<open>FetchRejected\<close>: \<open>fetch\<close> rejects;
  \<^item> \<open>JsonRejected\<close>: \<open>response.json()\<close> rejects, the body is not JSON;
  \<^item> \<open>DataNull\<close>: the body is the JSON value \<open>null\<close>;
  \<^item> \<open>Data docs\<close>: the body is an object of the declared shape, whose \<open>docs\<close> is
    absent (\<open>None\<close>) or an array of book records;
  \<^item> \<open>DataRaw ds\<close>: the body is an object whose \<open>docs\<close> is an array in which an
    element is a book record or \<open>null\<close> (\<open>None\<close>).
  On an array with no \<open>null\<close> the last two agree. The handler tests
  \<open>data.docs && data.docs.length > 0\<close>, so \<open>Data None\<close> also stands for a body that
  is a number, a string, a boolean or an array and for a \<open>docs\<close> that is \<open>null\<close>,
  \<open>false\<close>, \<open>0\<close> or the empty string, and \<open>Data (Some [])\<close> for a \<open>docs\<close> that is
  a number, \<open>true\<close> or an object with no \<open>length\<close>. A \<open>docs\<close> that is a string
  that is not empty, and an element that is neither an object nor \<open>null\<close>, are outside
  the model.
\<close>

datatype outcome =
  FetchRejected | JsonRejected | DataNull | Data "book list option" | DataRaw "book option list"

subsection \<open>The typed component\<close>

text \<open>
  The filter stage: the body of the success branch of \<open>handleSearch\<close> between
  \<open>let filteredBooks = data.docs\<close> and \<open>setBooks(filteredBooks)\<close>.
\<close>

definition tsx_filterStage :: "filters \<Rightarrow> book list \<Rightarrow> book list" where
  "tsx_filterStage f docs =
     (let filteredBooks = docs;
          filteredBooks =
            (if hasEbook f
             then filter (\<lambda>book. ebook_access book = Some ''borrowable''
                                \<or> ebook_access book = Some ''public'') filteredBooks
             else filteredBooks);
          filteredBooks =
            (if truthyStr (yearFrom f)
             then filter (\<lambda>book. truthyNum (first_publish_year book)
                                \<and> numGe (first_publish_year book) (parseInt (yearFrom f)))
                    filteredBooks
             else filteredBooks);
          filteredBooks =
            (if truthyStr (yearTo f)
             then filter (\<lambda>book. truthyNum (first_publish_year book)
                                \<and> numLe (first_publish_year book) (parseInt (yearTo f)))
                    filteredBooks
             else filteredBooks)
      in filteredBooks)"

text \<open>
  The same lines on an array in which an element can be \<open>null\<close>: reading a property
  of \<open>null\<close> throws a \<open>TypeError\<close>, which leaves the filter and the \<open>try\<close> block.
\<close>

definition tsx_filterDocs :: "filters \<Rightarrow> book option list \<Rightarrow> js_error + book option list" where
  "tsx_filterDocs f docs =
     (case (if hasEbook f
            then filterE (\<lambda>book. case book of
                             None \<Rightarrow> Inl TypeError
                           | Some b \<Rightarrow> Inr (ebook_access b = Some ''borrowable''
                                          \<or> ebook_access b = Some ''public'')) docs
            else Inr docs) of
        Inl e \<Rightarrow> Inl e
      | Inr filteredBooks \<Rightarrow>
          (case (if truthyStr (yearFrom f)
                 then filterE (\<lambda>book. case book of
                                  None \<Rightarrow> Inl TypeError
                                | Some b \<Rightarrow> Inr (truthyNum (first_publish_year b)
                                               \<and> numGe (first_publish_year b) (parseInt (yearFrom f))))
                        filteredBooks
                 else Inr filteredBooks) of
             Inl e \<Rightarrow> Inl e
           | Inr filteredBooks \<Rightarrow>
               (if truthyStr (yearTo f)
                then filterE (\<lambda>book. case book of
                                 None \<Rightarrow> Inl TypeError
                               | Some b \<Rightarrow> Inr (truthyNum (first_publish_year b)
                                              \<and> numLe (first_publish_year b) (parseInt (yearTo f))))
                       filteredBooks
                else Inr filteredBooks)))"

definition tsx_searchUrl :: "state \<Rightarrow> string" where
  "tsx_searchUrl s =
     ''https://openlibrary.org/search.json?'' @ searchType s @ ''=''
       @ encodeURIComponent (searchQuery s) @ ''&limit=20''"

text \<open>
  \<open>handleSearch\<close>, run to completion against the network \<open>net\<close> (the outcome of the
  request for a URL). The result is the state after the last setter and the list of
  the URLs requested. The closure reads \<open>searchQuery\<close>, \<open>searchType\<close> and \<open>filters\<close>
  of the state it was created in; no other event is interleaved. The \<open>catch\<close> block
  takes every exception of the \<open>try\<close> block: a rejected \<open>fetch\<close>, a rejected
  \<open>response.json()\<close>, the \<open>TypeError\<close> of \<open>data.docs\<close> on a body that is
  \<open>null\<close>, and the \<open>TypeError\<close> of a filter on an element that is \<open>null\<close>.
  (\<open>encodeURIComponent\<close> throws on a lone surrogate only, which a \<open>string\<close> cannot
  hold.)
\<close>

definition tsx_handleSearch :: "(string \<Rightarrow> outcome) \<Rightarrow> state \<Rightarrow> state \<times> string list" where
  "tsx_handleSearch net s =
     (if \<not> truthyStr (trim (searchQuery s)) then (s, [])
      else
        let s1 = s\<lparr>loading := True, error := [], books := []\<rparr>;
            url = tsx_searchUrl s;
            s2 = (case net url of
                    FetchRejected \<Rightarrow>
                      s1\<lparr>error := ''Failed to fetch books. Please check your connection and try again.''\<rparr>
                  | JsonRejected \<Rightarrow>
                      s1\<lparr>error := ''Failed to fetch books. Please check your connection and try again.''\<rparr>
                  | DataNull \<Rightarrow>
                      s1\<lparr>error := ''Failed to fetch books. Please check your connection and try again.''\<rparr>
                  | Data docs \<Rightarrow>
                      (case docs of
                         None \<Rightarrow> s1\<lparr>error := ''No books found. Try a different search term.''\<rparr>
                       | Some ds \<Rightarrow>
                           if length ds > 0
                           then s1\<lparr>books := map Some (tsx_filterStage (filters s) ds)\<rparr>
                           else s1\<lparr>error := ''No books found. Try a different search term.''\<rparr>)
                  | DataRaw ds \<Rightarrow>
                      if length ds > 0
                      then (case tsx_filterDocs (filters s) ds of
                              Inl e \<Rightarrow> s1\<lparr>error := ''Failed to fetch books. Please check your connection and try again.''\<rparr>
                            | Inr filteredBooks \<Rightarrow> s1\<lparr>books := filteredBooks\<rparr>)
                      else s1\<lparr>error := ''No books found. Try a different search term.''\<rparr>)
        in (s2\<lparr>loading := False\<rparr>, [url]))"

text \<open>\<open>handleKeyPress\<close>: only the Enter key starts a search.\<close>

definition tsx_handleKeyPress :: "string \<Rightarrow> (string \<Rightarrow> outcome) \<Rightarrow> state \<Rightarrow> state \<times> string list" where
  "tsx_handleKeyPress k net s = (if k = ''Enter'' then tsx_handleSearch net s else (s, []))"

definition tsx_getCoverUrl :: "book \<Rightarrow> string \<Rightarrow> string option" where
  "tsx_getCoverUrl b sz =
     (if truthyNum (cover_i b)
      then (case cover_i b of
              None \<Rightarrow> None
            | Some i \<Rightarrow> Some (''https://covers.openlibrary.org/b/id/'' @ showInt i @ ''-'' @ sz @ ''.jpg''))
      else None)"

text \<open>
  What a card and the detail view show: one field per expression in braces of the
  markup. A section that is not rendered is \<open>None\<close>. \<open>cardCoverOnError\<close> is what
  the \<open>onError\<close> handler of the cover image assigns to \<open>style.display\<close> when the
  image fails to load; it is \<open>None\<close> when there is no image or no handler.
\<close>

record card_view =
  cardCover :: "string option"
  cardCoverOnError :: "string option"
  cardTitle :: string
  cardAuthors :: string
  cardYear :: js_value
  cardBadge :: bool

record modal_view =
  modalCover :: "string option"
  modalTitle :: string
  modalAuthors :: string
  modalYear :: js_value
  modalEditions :: js_value
  modalLanguage :: string
  modalEbook :: string
  modalSubjects :: "string list option"
  modalPublishers :: "string option"
  modalLink :: string

definition tsx_BookCard :: "book \<Rightarrow> card_view" where
  "tsx_BookCard b =
     \<lparr> cardCover = tsx_getCoverUrl b ''M'',
       cardCoverOnError = (case tsx_getCoverUrl b ''M'' of
                             Some coverUrl \<Rightarrow> Some ''none''
                           | None \<Rightarrow> None),
       cardTitle = title b,
       cardAuthors = (case author_name b of
                        Some a \<Rightarrow> join '', '' (take 2 a)
                      | None \<Rightarrow> ''Unknown Author''),
       cardYear = (case first_publish_year b of
                     Some y \<Rightarrow> if y \<noteq> 0 then Num y else Str ''Year unknown''
                   | None \<Rightarrow> Str ''Year unknown''),
       cardBadge = (ebook_access b \<noteq> Some ''no_ebook'') \<rparr>"

definition tsx_BookModal :: "book \<Rightarrow> modal_view" where
  "tsx_BookModal b =
     \<lparr> modalCover = tsx_getCoverUrl b ''L'',
       modalTitle = title b,
       modalAuthors = (case author_name b of
                         Some a \<Rightarrow> join '', '' a
                       | None \<Rightarrow> ''Unknown Author''),
       modalYear = (case first_publish_year b of
                      Some y \<Rightarrow> if y \<noteq> 0 then Num y else Str ''Unknown''
                    | None \<Rightarrow> Str ''Unknown''),
       modalEditions = (case edition_count b of
                          Some n \<Rightarrow> if n \<noteq> 0 then Num n else Num 0
                        | None \<Rightarrow> Num 0),
       modalLanguage = (case language b of
                          Some l \<Rightarrow> toUpperCase (join '', '' (take 3 l))
                        | None \<Rightarrow> ''N/A''),
       modalEbook = (if ebook_access b = Some ''no_ebook'' then ''Not Available'' else ''Available''),
       modalSubjects = (case subject b of
                          Some sj \<Rightarrow> if length sj > 0 then Some (take 10 sj) else None
                        | None \<Rightarrow> None),
       modalPublishers = (case publisher b of
                            Some p \<Rightarrow> if length p > 0 then Some (join '', '' (take 3 p)) else None
                          | None \<Rightarrow> None),
       modalLink = ''https://openlibrary.org'' @ key b \<rparr>"

text \<open>
  The component's own markup: the error banner, the line \<open>Found n books\<close> with the
  grid of cards, the detail view and the search button. A card whose \<open>book\<close> is
  \<open>null\<close> throws when it reads \<open>book.cover_i\<close>.
\<close>

record page_view =
  pageError :: "string option"
  pageFound :: "nat option"
  pageCards :: "(js_error + card_view) list"
  pageModal :: "modal_view option"
  pageButton :: string
  pageButtonDisabled :: bool

definition tsx_render :: "state \<Rightarrow> page_view" where
  "tsx_render s =
     \<lparr> pageError = (if truthyStr (error s) then Some (error s) else None),
       pageFound = (if length (books s) > 0 then Some (length (books s)) else None),
       pageCards = (if length (books s) > 0
                    then map (\<lambda>book. case book of
                                None \<Rightarrow> Inl TypeError
                              | Some b \<Rightarrow> Inr (tsx_BookCard b)) (books s)
                    else []),
       pageModal = (case selectedBook s of Some b \<Rightarrow> Some (tsx_BookModal b) | None \<Rightarrow> None),
       pageButton = (if loading s then ''Searching...'' else ''Search''),
       pageButtonDisabled = loading s \<rparr>"

subsection \<open>The untyped component\<close>

text \<open>The same functions as \<open>Books.jsx\<close> writes them.\<close>

definition jsx_filterStage :: "filters \<Rightarrow> book list \<Rightarrow> book list" where
  "jsx_filterStage f docs =
     (let filteredBooks = docs;
          filteredBooks =
            (if hasEbook f
             then filter (\<lambda>book. ebook_access book = Some ''borrowable''
                                \<or> ebook_access book = Some ''public'') filteredBooks
             else filteredBooks);
          filteredBooks =
            (if truthyStr (yearFrom f)
             then filter (\<lambda>book. truthyNum (first_publish_year book)
                                \<and> numGe (first_publish_year book) (parseInt (yearFrom f)))
                    filteredBooks
             else filteredBooks);
          filteredBooks =
            (if truthyStr (yearTo f)
             then filter (\<lambda>book. truthyNum (first_publish_year book)
                                \<and> numLe (first_publish_year book) (parseInt (yearTo f)))
                    filteredBooks
             else filteredBooks)
      in filteredBooks)"

definition jsx_filterDocs :: "filters \<Rightarrow> book option list \<Rightarrow> js_error + book option list" where
  "jsx_filterDocs f docs =
     (case (if hasEbook f
            then filterE (\<lambda>book. case book of
                             None \<Rightarrow> Inl TypeError
                           | Some b \<Rightarrow> Inr (ebook_access b = Some ''borrowable''
                                          \<or> ebook_access b = Some ''public'')) docs
            else Inr docs) of
        Inl e \<Rightarrow> Inl e
      | Inr filteredBooks \<Rightarrow>
          (case (if truthyStr (yearFrom f)
                 then filterE (\<lambda>book. case book of
                                  None \<Rightarrow> Inl TypeError
                                | Some b \<Rightarrow> Inr (truthyNum (first_publish_year b)
                                               \<and> numGe (first_publish_year b) (parseInt (yearFrom f))))
                        filteredBooks
                 else Inr filteredBooks) of
             Inl e \<Rightarrow> Inl e
           | Inr filteredBooks \<Rightarrow>
               (if truthyStr (yearTo f)
                then filterE (\<lambda>book. case book of
                                 None \<Rightarrow> Inl TypeError
                               | Some b \<Rightarrow> Inr (truthyNum (first_publish_year b)
                                              \<and> numLe (first_publish_year b) (parseInt (yearTo f))))
                       filteredBooks
                else Inr filteredBooks)))"

definition jsx_searchUrl :: "state \<Rightarrow> string" where
  "jsx_searchUrl s =
     ''https://openlibrary.org/search.json?'' @ searchType s @ ''=''
       @ encodeURIComponent (searchQuery s) @ ''&limit=20''"

definition jsx_handleSearch :: "(string \<Rightarrow> outcome) \<Rightarrow> state \<Rightarrow> state \<times> string list" where
  "jsx_handleSearch net s =
     (if \<not> truthyStr (trim (searchQuery s)) then (s, [])
      else
        let s1 = s\<lparr>loading := True, error := [], books := []\<rparr>;
            url = jsx_searchUrl s;
            s2 = (case net url of
                    FetchRejected \<Rightarrow>
                      s1\<lparr>error := ''Failed to fetch books. Please check your connection.''\<rparr>
                  | JsonRejected \<Rightarrow>
                      s1\<lparr>error := ''Failed to fetch books. Please check your connection.''\<rparr>
                  | DataNull \<Rightarrow>
                      s1\<lparr>error := ''Failed to fetch books. Please check your connection.''\<rparr>
                  | Data docs \<Rightarrow>
                      (case docs of
                         None \<Rightarrow> s1\<lparr>error := ''No books found. Try a different search term.''\<rparr>
                       | Some ds \<Rightarrow>
                           if length ds > 0
                           then s1\<lparr>books := map Some (jsx_filterStage (filters s) ds)\<rparr>
                           else s1\<lparr>error := ''No books found. Try a different search term.''\<rparr>)
                  | DataRaw ds \<Rightarrow>
                      if length ds > 0
                      then (case jsx_filterDocs (filters s) ds of
                              Inl e \<Rightarrow> s1\<lparr>error := ''Failed to fetch books. Please check your connection.''\<rparr>
                            | Inr filteredBooks \<Rightarrow> s1\<lparr>books := filteredBooks\<rparr>)
                      else s1\<lparr>error := ''No books found. Try a different search term.''\<rparr>)
        in (s2\<lparr>loading := False\<rparr>, [url]))"

definition jsx_handleKeyPress :: "string \<Rightarrow> (string \<Rightarrow> outcome) \<Rightarrow> state \<Rightarrow> state \<times> string list" where
  "jsx_handleKeyPress k net s = (if k = ''Enter'' then jsx_handleSearch net s else (s, []))"

definition jsx_getCoverUrl :: "book \<Rightarrow> string \<Rightarrow> string option" where
  "jsx_getCoverUrl b sz =
     (case cover_i b of
        None \<Rightarrow> None
      | Some i \<Rightarrow>
          if i \<noteq> 0
          then Some (''https://covers.openlibrary.org/b/id/'' @ showInt i @ ''-'' @ sz @ ''.jpg'')
          else None)"

definition jsx_BookCard :: "book \<Rightarrow> card_view" where
  "jsx_BookCard b =
     \<lparr> cardCover = jsx_getCoverUrl b ''M'',
       cardCoverOnError = None,
       cardTitle = title b,
       cardAuthors = (case author_name b of
                        Some a \<Rightarrow> join '', '' a
                      | None \<Rightarrow> ''Unknown Author''),
       cardYear = (case first_publish_year b of
                     Some y \<Rightarrow> if y \<noteq> 0 then Num y else Str ''Unknown''
                   | None \<Rightarrow> Str ''Unknown''),
       cardBadge = (ebook_access b \<noteq> Some ''no_ebook'') \<rparr>"

text \<open>
  The language line is \<open>book.language?.join(", ").toUpperCase() || "N/A"\<close>: an empty
  text, too, is replaced by \<open>N/A\<close>. The subjects section is rendered as soon as the
  field is present, and there is no publishers section.
\<close>

definition jsx_BookModal :: "book \<Rightarrow> modal_view" where
  "jsx_BookModal b =
     \<lparr> modalCover = jsx_getCoverUrl b ''L'',
       modalTitle = title b,
       modalAuthors = (case author_name b of
                         Some a \<Rightarrow> join '', '' a
                       | None \<Rightarrow> ''Unknown Author''),
       modalYear = (case first_publish_year b of
                      Some y \<Rightarrow> if y \<noteq> 0 then Num y else Str ''Unknown''
                    | None \<Rightarrow> Str ''Unknown''),
       modalEditions = (case edition_count b of
                          Some n \<Rightarrow> if n \<noteq> 0 then Num n else Num 0
                        | None \<Rightarrow> Num 0),
       modalLanguage = (case language b of
                          Some l \<Rightarrow>
                            if truthyStr (toUpperCase (join '', '' l))
                            then toUpperCase (join '', '' l) else ''N/A''
                        | None \<Rightarrow> ''N/A''),
       modalEbook = (if ebook_access b = Some ''no_ebook'' then ''Not Available'' else ''Available''),
       modalSubjects = (case subject b of
                          Some sj \<Rightarrow> Some (take 10 sj)
                        | None \<Rightarrow> None),
       modalPublishers = None,
       modalLink = ''https://openlibrary.org'' @ key b \<rparr>"

definition jsx_render :: "state \<Rightarrow> page_view" where
  "jsx_render s =
     \<lparr> pageError = (if truthyStr (error s) then Some (error s) else None),
       pageFound = None,
       pageCards = map (\<lambda>book. case book of
                          None \<Rightarrow> Inl TypeError
                        | Some b \<Rightarrow> Inr (jsx_BookCard b)) (books s),
       pageModal = (case selectedBook s of Some b \<Rightarrow> Some (jsx_BookModal b) | None \<Rightarrow> None),
       pageButton = (if loading s then ''Searching...'' else ''Search''),
       pageButtonDisabled = loading s \<rparr>"

subsection \<open>Sample records and states\<close>

text \<open>Concrete inputs on which the theorems below are instantiated.\<close>

definition sampleDune :: book where
  "sampleDune =
     \<lparr> key = ''/works/OL893415W'', title = ''Dune'',
       author_name = Some [''Frank Herbert''], first_publish_year = Some 1965,
       cover_i = Some 11481354, ebook_access = Some ''borrowable'',
       edition_count = Some 120, language = Some [''eng'', ''fre''],
       subject = Some [''Science fiction''], publisher = Some [''Chilton Books''] \<rparr>"

definition sampleBare :: book where
  "sampleBare =
     \<lparr> key = ''/works/OL1W'', title = ''Untitled'',
       author_name = None, first_publish_year = None, cover_i = None, ebook_access = None,
       edition_count = None, language = None, subject = None, publisher = None \<rparr>"

definition sampleYearZero :: book where
  "sampleYearZero =
     \<lparr> key = ''/works/OL2W'', title = ''Annals'',
       author_name = None, first_publish_year = Some 0, cover_i = None,
       ebook_access = Some ''public'',
       edition_count = Some 1, language = None, subject = None, publisher = None \<rparr>"

definition sampleAnthology :: book where
  "sampleAnthology =
     \<lparr> key = ''/works/OL3W'', title = ''Anthology'',
       author_name = Some [''Ann Lee'', ''Bo Chen'', ''Cy Diaz''], first_publish_year = Some 1990,
       cover_i = Some 7, ebook_access = Some ''no_ebook'',
       edition_count = Some 2, language = Some [''eng'', ''fre'', ''ger'', ''spa''],
       subject = Some [], publisher = Some [''Orbit''] \<rparr>"

definition noFilters :: filters where
  "noFilters = \<lparr> hasEbook = False, yearFrom = [], yearTo = [] \<rparr>"

definition sampleDocs :: "book list" where
  "sampleDocs = [sampleBare, sampleDune, sampleAnthology, sampleYearZero]"

definition ebookOnly :: filters where
  "ebookOnly = \<lparr> hasEbook = True, yearFrom = [], yearTo = [] \<rparr>"

definition yearsBetween :: "string \<Rightarrow> string \<Rightarrow> filters" where
  "yearsBetween lo hi = \<lparr> hasEbook = False, yearFrom = lo, yearTo = hi \<rparr>"

definition sampleState :: state where
  "sampleState =
     \<lparr> searchQuery = ''dune'', searchType = ''title'', books = [], loading = False,
       error = [], selectedBook = None, filters = noFilters, showFilters = False \<rparr>"

text \<open>
  A query of white space only (U+00A0, U+0020, U+3000, U+0009, U+FEFF), a state in which
  no field has its initial value, and a \<open>docs\<close> array with a \<open>null\<close> element.
\<close>

definition sampleBlanks :: "string list" where
  "sampleBlanks =
     [[CHR 0xC2, CHR 0xA0], [CHR 0x20], [CHR 0xE3, CHR 0x80, CHR 0x80], [CHR 0x09],
      [CHR 0xEF, CHR 0xBB, CHR 0xBF]]"

definition sampleBusyState :: state where
  "sampleBusyState =
     \<lparr> searchQuery = concat sampleBlanks, searchType = ''author'',
       books = [Some sampleDune], loading = True,
       error = ''No books found. Try a different search term.'',
       selectedBook = Some sampleDune, filters = ebookOnly, showFilters = True \<rparr>"


text \<open>A network that answers every request in the same way.\<close>

definition netReturns :: "outcome \<Rightarrow> string \<Rightarrow> outcome" where
  "netReturns r url = r"

section \<open>Properties\<close>

subsection \<open>Auxiliary facts\<close>

lemma jsx_filterStage_eq: "jsx_filterStage f docs = tsx_filterStage f docs"
  by (simp add: jsx_filterStage_def tsx_filterStage_def)

lemma jsx_searchUrl_eq: "jsx_searchUrl s = tsx_searchUrl s"
  by (simp add: jsx_searchUrl_def tsx_searchUrl_def)

text \<open>The three steps of the filter stage as one pass over the list.\<close>

lemma tsx_filterStage_filter:
  "tsx_filterStage f docs =
     filter (\<lambda>b. (hasEbook f \<longrightarrow> ebook_access b = Some ''borrowable'' \<or> ebook_access b = Some ''public'')
               \<and> (truthyStr (yearFrom f) \<longrightarrow>
                    truthyNum (first_publish_year b) \<and> numGe (first_publish_year b) (parseInt (yearFrom f)))
               \<and> (truthyStr (yearTo f) \<longrightarrow>
                    truthyNum (first_publish_year b) \<and> numLe (first_publish_year b) (parseInt (yearTo f))))
       docs"
  by (auto simp add: tsx_filterStage_def Let_def intro!: filter_cong)

text \<open>A text made of white-space characters only is trimmed to nothing.\<close>

lemma stripLeading_whiteSpace:
  "w \<in> set whiteSpace \<Longrightarrow> stripLeading whiteSpace (w @ s) = stripLeading whiteSpace s"
  by (auto simp add: whiteSpace_def startsWith_def)

lemma trimStart_concat:
  "set ws \<subseteq> set whiteSpace \<Longrightarrow> trimStart (concat ws) = []"
  by (induction ws) (simp_all add: trimStart_def stripLeading_whiteSpace)

lemma trim_blank: "set ws \<subseteq> set whiteSpace \<Longrightarrow> trim (concat ws) = []"
  by (simp add: trim_def trimStart_concat trimEnd_def)

lemma parseInt_empty: "parseInt [] = None"
  by (simp add: parseInt_def trimStart_def)

lemma toUpperCase_Nil_iff: "toUpperCase t = [] \<longleftrightarrow> t = []"
  by (simp add: toUpperCase_def)

lemma jsx_getCoverUrl_eq: "jsx_getCoverUrl b sz = tsx_getCoverUrl b sz"
  by (simp add: jsx_getCoverUrl_def tsx_getCoverUrl_def truthyNum_def split: option.splits)

text \<open>The filter stage on an array that can hold \<open>null\<close>.\<close>

lemma jsx_filterDocs_eq: "jsx_filterDocs f ds = tsx_filterDocs f ds"
  by (simp add: jsx_filterDocs_def tsx_filterDocs_def)


lemma filterE_records:
  "filterE (\<lambda>book. case book of None \<Rightarrow> Inl TypeError | Some b \<Rightarrow> Inr (P b)) (map Some bs)
     = Inr (map Some (filter P bs))"
  by (induction bs) simp_all

lemma tsx_filterDocs_records:
  "tsx_filterDocs f (map Some bs) = Inr (map Some (tsx_filterStage f bs))"
  by (simp add: tsx_filterDocs_def tsx_filterStage_def filterE_records)



text \<open>An array of records is handled in the same way under either constructor.\<close>

lemma raw_records_agree:
  "net1 (tsx_searchUrl s) = DataRaw (map Some ds) \<Longrightarrow> net2 (tsx_searchUrl s) = Data (Some ds) \<Longrightarrow>
     tsx_handleSearch net1 s = tsx_handleSearch net2 s"
  by (simp add: tsx_handleSearch_def Let_def tsx_filterDocs_records)

text \<open>The two handlers side by side.\<close>

lemma handlers_same_requests: "snd (jsx_handleSearch net s) = snd (tsx_handleSearch net s)"
  by (simp add: tsx_handleSearch_def jsx_handleSearch_def Let_def jsx_searchUrl_eq)

lemma handlers_same_but_message:
  "(fst (jsx_handleSearch net s))\<lparr>error := []\<rparr> = (fst (tsx_handleSearch net s))\<lparr>error := []\<rparr>"
  by (simp add: tsx_handleSearch_def jsx_handleSearch_def Let_def jsx_searchUrl_eq
        jsx_filterStage_eq jsx_filterDocs_eq split: outcome.splits option.splits sum.splits)

lemma handlers_eq_if:
  "\<not> truthyStr (trim (searchQuery s))
     \<or> error (fst (tsx_handleSearch net s)) \<noteq> ''Failed to fetch books. Please check your connection and try again.''
   \<Longrightarrow> jsx_handleSearch net s = tsx_handleSearch net s"
  by (auto simp add: tsx_handleSearch_def jsx_handleSearch_def Let_def jsx_searchUrl_eq
        jsx_filterStage_eq jsx_filterDocs_eq split: outcome.splits option.splits sum.splits)

lemma jsx_message_is_short:
  "truthyStr (trim (searchQuery s)) \<Longrightarrow> error (fst (jsx_handleSearch net s)) \<noteq> ''Failed to fetch books. Please check your connection and try again.''"
  by (simp add: jsx_handleSearch_def Let_def split: outcome.splits option.splits sum.splits)

text \<open>Joining a prefix of a list gives the same text only when the prefix is the list.\<close>

lemma join_take_2_iff: "join '', '' a = join '', '' (take 2 a) \<longleftrightarrow> length a \<le> 2"
proof (cases a)
  case Nil
  then show ?thesis by simp
next
  case (Cons x xs)
  note a = this
  show ?thesis
  proof (cases xs)
    case Nil
    with a show ?thesis by simp
  next
    case (Cons y ys)
    with a show ?thesis by (cases ys) simp_all
  qed
qed

lemma language_line_iff:
  "(if truthyStr (toUpperCase (join '', '' l)) then toUpperCase (join '', '' l) else ''N/A'')
     = toUpperCase (join '', '' (take 3 l))
   \<longleftrightarrow> length l \<le> 3 \<and> join '', '' l \<noteq> []"
proof (cases "length l \<le> 3")
  case True
  then show ?thesis
    by (auto simp add: truthyStr_def toUpperCase_def)
next
  case False
  then obtain a b c d ds where l: "l = a # b # c # d # ds"
    by (cases l; cases "tl l"; cases "tl (tl l)"; cases "tl (tl (tl l))") auto
  then show ?thesis
    by (simp add: truthyStr_def toUpperCase_def)
qed

text \<open>Evaluations on the sample records.\<close>

lemma parseInt_1965: "parseInt ''1965'' = Some 1965"
  by code_simp

lemma parseInt_1990: "parseInt ''1990'' = Some 1990"
  by code_simp

lemma parseInt_2000: "parseInt ''2000'' = Some 2000"
  by code_simp

lemma parseInt_minus5: "parseInt ''-5'' = Some (- 5)"
  by code_simp

lemma parseInt_abc: "parseInt ''abc'' = None"
  by code_simp

lemma parseInt_dot5: "parseInt ''.5'' = None"
  by code_simp

lemma trim_dune: "trim ''dune'' = ''dune''"
  by code_simp

lemmas sample_defs = sampleDocs_def sampleBare_def sampleDune_def sampleAnthology_def
  sampleYearZero_def ebookOnly_def yearsBetween_def noFilters_def

lemma eval_ebookOnly:
  "tsx_filterStage ebookOnly sampleDocs = [sampleDune, sampleYearZero]"
  by (simp add: tsx_filterStage_def truthyStr_def sample_defs)

lemma eval_years_1965_1990:
  "tsx_filterStage (yearsBetween ''1965'' ''1990'') sampleDocs = [sampleDune, sampleAnthology]"
  by (simp add: tsx_filterStage_def truthyStr_def truthyNum_def numGe_def numLe_def
        parseInt_1965 parseInt_1990 sample_defs)

lemma eval_years_from_minus5:
  "tsx_filterStage (yearsBetween ''-5'' []) sampleDocs = [sampleDune, sampleAnthology]"
  by (simp add: tsx_filterStage_def truthyStr_def truthyNum_def numGe_def numLe_def
        parseInt_minus5 sample_defs)

lemma sampleBare_in_docs: "sampleBare \<in> set sampleDocs"
  by (simp add: sampleDocs_def)

lemma sampleDune_in_docs: "sampleDune \<in> set sampleDocs"
  by (simp add: sampleDocs_def)

lemma sampleYearZero_in_docs: "sampleYearZero \<in> set sampleDocs"
  by (simp add: sampleDocs_def)

lemma sampleState_query: "truthyStr (trim (searchQuery sampleState))"
  by (simp add: sampleState_def trim_dune truthyStr_def)


lemma eval_years_from_2000:
  "tsx_filterStage (yearsBetween ''2000'' []) sampleDocs = []"
  by (simp add: tsx_filterStage_def truthyStr_def truthyNum_def numGe_def numLe_def
        parseInt_2000 sample_defs)

subsection \<open>The two components compared\<close>

text \<open>
  C1 (as stated): the two components behave identically and differ only in styling: the
  same author list on a card, the same language list, the same publisher display, the
  same error-message text, the same filtered result set.

  This fails. For a record with three authors, four languages and a publisher, the typed
  card shows the first two authors and the untyped one all three; the typed detail view
  shows three languages and the publisher, the untyped one four languages and no
  publisher; and after a rejected request the two error messages differ.
\<close>

theorem implementations_differ:
  "cardAuthors (tsx_BookCard sampleAnthology) = ''Ann Lee, Bo Chen''
   \<and> cardAuthors (jsx_BookCard sampleAnthology) = ''Ann Lee, Bo Chen, Cy Diaz''
   \<and> modalLanguage (tsx_BookModal sampleAnthology) = ''ENG, FRE, GER''
   \<and> modalLanguage (jsx_BookModal sampleAnthology) = ''ENG, FRE, GER, SPA''
   \<and> modalPublishers (tsx_BookModal sampleAnthology) = Some ''Orbit''
   \<and> modalPublishers (jsx_BookModal sampleAnthology) = None
   \<and> error (fst (tsx_handleSearch (netReturns FetchRejected) sampleState))
        = ''Failed to fetch books. Please check your connection and try again.''
   \<and> error (fst (jsx_handleSearch (netReturns FetchRejected) sampleState))
        = ''Failed to fetch books. Please check your connection.''
   \<and> tsx_BookCard sampleAnthology \<noteq> jsx_BookCard sampleAnthology
   \<and> tsx_BookModal sampleAnthology \<noteq> jsx_BookModal sampleAnthology
   \<and> tsx_handleSearch (netReturns FetchRejected) sampleState
        \<noteq> jsx_handleSearch (netReturns FetchRejected) sampleState"
proof -
  have authors:
    "cardAuthors (tsx_BookCard sampleAnthology) = ''Ann Lee, Bo Chen''
     \<and> cardAuthors (jsx_BookCard sampleAnthology) = ''Ann Lee, Bo Chen, Cy Diaz''"
    by code_simp
  have langs:
    "modalLanguage (tsx_BookModal sampleAnthology) = ''ENG, FRE, GER''
     \<and> modalLanguage (jsx_BookModal sampleAnthology) = ''ENG, FRE, GER, SPA''"
    by code_simp
  have pubs:
    "modalPublishers (tsx_BookModal sampleAnthology) = Some ''Orbit''
     \<and> modalPublishers (jsx_BookModal sampleAnthology) = None"
    by code_simp
  have msgs:
    "error (fst (tsx_handleSearch (netReturns FetchRejected) sampleState))
       = ''Failed to fetch books. Please check your connection and try again.''
     \<and> error (fst (jsx_handleSearch (netReturns FetchRejected) sampleState))
       = ''Failed to fetch books. Please check your connection.''"
    by code_simp
  have card: "tsx_BookCard sampleAnthology \<noteq> jsx_BookCard sampleAnthology"
  proof
    assume "tsx_BookCard sampleAnthology = jsx_BookCard sampleAnthology"
    then have "cardAuthors (tsx_BookCard sampleAnthology) = cardAuthors (jsx_BookCard sampleAnthology)"
      by simp
    with authors show False by auto
  qed
  have modal: "tsx_BookModal sampleAnthology \<noteq> jsx_BookModal sampleAnthology"
  proof
    assume "tsx_BookModal sampleAnthology = jsx_BookModal sampleAnthology"
    then have "modalPublishers (tsx_BookModal sampleAnthology)
               = modalPublishers (jsx_BookModal sampleAnthology)"
      by simp
    with pubs show False by auto
  qed
  have search: "tsx_handleSearch (netReturns FetchRejected) sampleState
                \<noteq> jsx_handleSearch (netReturns FetchRejected) sampleState"
  proof
    assume "tsx_handleSearch (netReturns FetchRejected) sampleState
            = jsx_handleSearch (netReturns FetchRejected) sampleState"
    then have "error (fst (tsx_handleSearch (netReturns FetchRejected) sampleState))
               = error (fst (jsx_handleSearch (netReturns FetchRejected) sampleState))"
      by simp
    with msgs show False by auto
  qed
  from authors langs pubs msgs card modal search show ?thesis by blast
qed

text \<open>
  C1 (amended): the two components compute the same filtered result set. A search issues
  the same requests in both and ends in the same state, the error text apart; the two end
  states are equal exactly when the query is blank or the typed component does not end
  with its \<open>failed\<close> message. Both render the error banner from the same state field.
  A card has the same cover URL, title and eBook badge in both; the same year text
  exactly when \<open>first_publish_year\<close> is present and not 0; the same author text exactly
  when \<open>author_name\<close> is absent or has at most two entries. The detail view has the
  same cover URL, title, author text, year, edition count, eBook status and link; the
  same language text exactly when \<open>language\<close> is absent or has at most three entries
  whose joined text is not empty; the same publisher display exactly when \<open>publisher\<close>
  is absent or empty; the same subjects section exactly when \<open>subject\<close> is not an
  empty array. A cover that fails to load is handled in the same way exactly when the
  record has no cover: the typed card hides the image, the untyped one has no handler.
\<close>

theorem implementations_agree:
  "jsx_filterStage f docs = tsx_filterStage f docs
   \<and> snd (jsx_handleSearch net s) = snd (tsx_handleSearch net s)
   \<and> (fst (jsx_handleSearch net s))\<lparr>error := []\<rparr> = (fst (tsx_handleSearch net s))\<lparr>error := []\<rparr>
   \<and> (jsx_handleSearch net s = tsx_handleSearch net s \<longleftrightarrow>
        \<not> truthyStr (trim (searchQuery s))
        \<or> error (fst (tsx_handleSearch net s)) \<noteq> ''Failed to fetch books. Please check your connection and try again.'')
   \<and> pageError (jsx_render s) = pageError (tsx_render s)
   \<and> cardCover (jsx_BookCard b) = cardCover (tsx_BookCard b)
   \<and> cardTitle (jsx_BookCard b) = cardTitle (tsx_BookCard b)
   \<and> cardBadge (jsx_BookCard b) = cardBadge (tsx_BookCard b)
   \<and> (cardCoverOnError (jsx_BookCard b) = cardCoverOnError (tsx_BookCard b) \<longleftrightarrow>
        cardCover (tsx_BookCard b) = None)
   \<and> (cardYear (jsx_BookCard b) = cardYear (tsx_BookCard b) \<longleftrightarrow>
        truthyNum (first_publish_year b))
   \<and> (cardAuthors (jsx_BookCard b) = cardAuthors (tsx_BookCard b) \<longleftrightarrow>
        (case author_name b of None \<Rightarrow> True | Some a \<Rightarrow> length a \<le> 2))
   \<and> modalCover (jsx_BookModal b) = modalCover (tsx_BookModal b)
   \<and> modalTitle (jsx_BookModal b) = modalTitle (tsx_BookModal b)
   \<and> modalAuthors (jsx_BookModal b) = modalAuthors (tsx_BookModal b)
   \<and> modalYear (jsx_BookModal b) = modalYear (tsx_BookModal b)
   \<and> modalEditions (jsx_BookModal b) = modalEditions (tsx_BookModal b)
   \<and> modalEbook (jsx_BookModal b) = modalEbook (tsx_BookModal b)
   \<and> modalLink (jsx_BookModal b) = modalLink (tsx_BookModal b)
   \<and> (modalLanguage (jsx_BookModal b) = modalLanguage (tsx_BookModal b) \<longleftrightarrow>
        (case language b of None \<Rightarrow> True | Some l \<Rightarrow> length l \<le> 3 \<and> join '', '' l \<noteq> []))
   \<and> (modalPublishers (jsx_BookModal b) = modalPublishers (tsx_BookModal b) \<longleftrightarrow>
        (case publisher b of None \<Rightarrow> True | Some p \<Rightarrow> p = []))
   \<and> (modalSubjects (jsx_BookModal b) = modalSubjects (tsx_BookModal b) \<longleftrightarrow>
        subject b \<noteq> Some [])"
proof -
  note stage = jsx_filterStage_eq [of f docs]
  note requests = handlers_same_requests [of net s]
  note states = handlers_same_but_message [of net s]
  have search:
    "jsx_handleSearch net s = tsx_handleSearch net s \<longleftrightarrow>
       \<not> truthyStr (trim (searchQuery s))
       \<or> error (fst (tsx_handleSearch net s)) \<noteq> ''Failed to fetch books. Please check your connection and try again.''"
  proof
    assume same: "jsx_handleSearch net s = tsx_handleSearch net s"
    show "\<not> truthyStr (trim (searchQuery s))
          \<or> error (fst (tsx_handleSearch net s)) \<noteq> ''Failed to fetch books. Please check your connection and try again.''"
    proof (cases "truthyStr (trim (searchQuery s))")
      case True
      then have "error (fst (jsx_handleSearch net s)) \<noteq> ''Failed to fetch books. Please check your connection and try again.''"
        by (rule jsx_message_is_short)
      with same show ?thesis by simp
    next
      case False
      then show ?thesis by simp
    qed
  next
    assume "\<not> truthyStr (trim (searchQuery s))
            \<or> error (fst (tsx_handleSearch net s)) \<noteq> ''Failed to fetch books. Please check your connection and try again.''"
    then show "jsx_handleSearch net s = tsx_handleSearch net s"
      by (rule handlers_eq_if)
  qed
  have banner: "pageError (jsx_render s) = pageError (tsx_render s)"
    by (simp add: tsx_render_def jsx_render_def)
  have card:
    "cardCover (jsx_BookCard b) = cardCover (tsx_BookCard b)"
    "cardTitle (jsx_BookCard b) = cardTitle (tsx_BookCard b)"
    "cardBadge (jsx_BookCard b) = cardBadge (tsx_BookCard b)"
    by (simp_all add: tsx_BookCard_def jsx_BookCard_def jsx_getCoverUrl_eq)
  have onerror:
    "cardCoverOnError (jsx_BookCard b) = cardCoverOnError (tsx_BookCard b) \<longleftrightarrow>
       cardCover (tsx_BookCard b) = None"
    by (simp add: tsx_BookCard_def jsx_BookCard_def split: option.splits)
  have year:
    "cardYear (jsx_BookCard b) = cardYear (tsx_BookCard b) \<longleftrightarrow> truthyNum (first_publish_year b)"
    by (simp add: tsx_BookCard_def jsx_BookCard_def truthyNum_def split: option.splits)
  have authors:
    "cardAuthors (jsx_BookCard b) = cardAuthors (tsx_BookCard b) \<longleftrightarrow>
       (case author_name b of None \<Rightarrow> True | Some a \<Rightarrow> length a \<le> 2)"
    by (simp add: tsx_BookCard_def jsx_BookCard_def join_take_2_iff split: option.splits)
  have modal:
    "modalCover (jsx_BookModal b) = modalCover (tsx_BookModal b)"
    "modalTitle (jsx_BookModal b) = modalTitle (tsx_BookModal b)"
    "modalAuthors (jsx_BookModal b) = modalAuthors (tsx_BookModal b)"
    "modalYear (jsx_BookModal b) = modalYear (tsx_BookModal b)"
    "modalEditions (jsx_BookModal b) = modalEditions (tsx_BookModal b)"
    "modalEbook (jsx_BookModal b) = modalEbook (tsx_BookModal b)"
    "modalLink (jsx_BookModal b) = modalLink (tsx_BookModal b)"
    by (simp_all add: tsx_BookModal_def jsx_BookModal_def jsx_getCoverUrl_eq)
  have langs:
    "modalLanguage (jsx_BookModal b) = modalLanguage (tsx_BookModal b) \<longleftrightarrow>
       (case language b of None \<Rightarrow> True | Some l \<Rightarrow> length l \<le> 3 \<and> join '', '' l \<noteq> [])"
    using language_line_iff
    by (simp add: tsx_BookModal_def jsx_BookModal_def split: option.splits)
  have pubs:
    "modalPublishers (jsx_BookModal b) = modalPublishers (tsx_BookModal b) \<longleftrightarrow>
       (case publisher b of None \<Rightarrow> True | Some p \<Rightarrow> p = [])"
    by (simp add: tsx_BookModal_def jsx_BookModal_def split: option.splits)
  have subjects:
    "modalSubjects (jsx_BookModal b) = modalSubjects (tsx_BookModal b) \<longleftrightarrow> subject b \<noteq> Some []"
    by (simp add: tsx_BookModal_def jsx_BookModal_def split: option.splits)
  show ?thesis
    by (intro conjI)
       (fact stage requests states search banner card onerror year authors modal langs pubs
          subjects)+
qed

text \<open>
  An instance on the sample records: a record with one author, two languages and a
  cover, a record with no optional field, a record with year 0, a record with three
  authors, four languages, a publisher and no subject, a search that succeeds and a
  search whose request is rejected.
\<close>

theorem implementations_agree_witness:
  "error (fst (tsx_handleSearch (netReturns (Data (Some sampleDocs))) sampleState)) = []
   \<and> jsx_handleSearch (netReturns (Data (Some sampleDocs))) sampleState
       = tsx_handleSearch (netReturns (Data (Some sampleDocs))) sampleState
   \<and> truthyNum (first_publish_year sampleDune)
   \<and> cardYear (jsx_BookCard sampleDune) = cardYear (tsx_BookCard sampleDune)
   \<and> author_name sampleDune = Some [''Frank Herbert'']
   \<and> cardAuthors (jsx_BookCard sampleDune) = cardAuthors (tsx_BookCard sampleDune)
   \<and> language sampleDune = Some [''eng'', ''fre'']
   \<and> modalLanguage (jsx_BookModal sampleDune) = modalLanguage (tsx_BookModal sampleDune)
   \<and> publisher sampleBare = None
   \<and> modalPublishers (jsx_BookModal sampleBare) = modalPublishers (tsx_BookModal sampleBare)
   \<and> \<not> truthyNum (first_publish_year sampleYearZero)
   \<and> cardYear (jsx_BookCard sampleYearZero) \<noteq> cardYear (tsx_BookCard sampleYearZero)
   \<and> author_name sampleAnthology = Some [''Ann Lee'', ''Bo Chen'', ''Cy Diaz'']
   \<and> cardAuthors (jsx_BookCard sampleAnthology) \<noteq> cardAuthors (tsx_BookCard sampleAnthology)
   \<and> publisher sampleAnthology = Some [''Orbit'']
   \<and> modalPublishers (jsx_BookModal sampleAnthology)
       \<noteq> modalPublishers (tsx_BookModal sampleAnthology)
   \<and> subject sampleAnthology = Some []
   \<and> modalSubjects (jsx_BookModal sampleAnthology) \<noteq> modalSubjects (tsx_BookModal sampleAnthology)
   \<and> language sampleAnthology = Some [''eng'', ''fre'', ''ger'', ''spa'']
   \<and> modalLanguage (jsx_BookModal sampleAnthology) \<noteq> modalLanguage (tsx_BookModal sampleAnthology)
   \<and> cardCover (tsx_BookCard sampleBare) = None
   \<and> cardCoverOnError (jsx_BookCard sampleBare) = cardCoverOnError (tsx_BookCard sampleBare)
   \<and> cardCover (tsx_BookCard sampleDune) \<noteq> None
   \<and> cardCoverOnError (jsx_BookCard sampleDune) \<noteq> cardCoverOnError (tsx_BookCard sampleDune)
   \<and> truthyStr (trim (searchQuery sampleState))
   \<and> error (fst (tsx_handleSearch (netReturns FetchRejected) sampleState)) = ''Failed to fetch books. Please check your connection and try again.''
   \<and> jsx_handleSearch (netReturns FetchRejected) sampleState
       \<noteq> tsx_handleSearch (netReturns FetchRejected) sampleState"
proof -
  let ?net = "netReturns (Data (Some sampleDocs))"
  have l: "language sampleAnthology = Some [''eng'', ''fre'', ''ger'', ''spa'']"
    by (simp add: sampleAnthology_def)
  have c: "cardCover (tsx_BookCard sampleBare) = None
           \<and> cardCover (tsx_BookCard sampleDune) \<noteq> None"
    by (simp add: tsx_BookCard_def tsx_getCoverUrl_def truthyNum_def sampleBare_def sampleDune_def)
  have f: "error (fst (tsx_handleSearch (netReturns FetchRejected) sampleState)) = ''Failed to fetch books. Please check your connection and try again.''"
    using sampleState_query by (simp add: tsx_handleSearch_def Let_def netReturns_def)
  from implementations_agree [of noFilters sampleDocs ?net sampleState sampleAnthology] l
  have r5: "modalLanguage (jsx_BookModal sampleAnthology)
              \<noteq> modalLanguage (tsx_BookModal sampleAnthology)"
    by simp
  from implementations_agree [of noFilters sampleDocs ?net sampleState sampleBare] c
  have r6: "cardCoverOnError (jsx_BookCard sampleBare) = cardCoverOnError (tsx_BookCard sampleBare)"
    by simp
  from implementations_agree [of noFilters sampleDocs ?net sampleState sampleDune] c
  have r7: "cardCoverOnError (jsx_BookCard sampleDune) \<noteq> cardCoverOnError (tsx_BookCard sampleDune)"
    by simp
  from implementations_agree [of noFilters sampleDocs "netReturns FetchRejected" sampleState sampleDune]
       sampleState_query f
  have r8: "jsx_handleSearch (netReturns FetchRejected) sampleState
              \<noteq> tsx_handleSearch (netReturns FetchRejected) sampleState"
    by simp
  have e: "error (fst (tsx_handleSearch ?net sampleState)) = []"
    by (simp add: tsx_handleSearch_def Let_def netReturns_def sampleState_query sampleDocs_def
          sampleState_def)
  have d: "truthyNum (first_publish_year sampleDune)
           \<and> author_name sampleDune = Some [''Frank Herbert'']
           \<and> language sampleDune = Some [''eng'', ''fre'']"
    by (simp add: sampleDune_def truthyNum_def)
  have p: "publisher sampleBare = None"
    by (simp add: sampleBare_def)
  have z: "\<not> truthyNum (first_publish_year sampleYearZero)"
    by (simp add: sampleYearZero_def truthyNum_def)
  have a: "author_name sampleAnthology = Some [''Ann Lee'', ''Bo Chen'', ''Cy Diaz'']
           \<and> publisher sampleAnthology = Some [''Orbit'']
           \<and> subject sampleAnthology = Some []"
    by (simp add: sampleAnthology_def)
  from implementations_agree [of noFilters sampleDocs ?net sampleState sampleDune] e d
  have r1: "jsx_handleSearch ?net sampleState = tsx_handleSearch ?net sampleState
            \<and> cardYear (jsx_BookCard sampleDune) = cardYear (tsx_BookCard sampleDune)
            \<and> cardAuthors (jsx_BookCard sampleDune) = cardAuthors (tsx_BookCard sampleDune)
            \<and> modalLanguage (jsx_BookModal sampleDune) = modalLanguage (tsx_BookModal sampleDune)"
    by simp
  from implementations_agree [of noFilters sampleDocs ?net sampleState sampleBare] p
  have r2: "modalPublishers (jsx_BookModal sampleBare) = modalPublishers (tsx_BookModal sampleBare)"
    by simp
  from implementations_agree [of noFilters sampleDocs ?net sampleState sampleYearZero] z
  have r3: "cardYear (jsx_BookCard sampleYearZero) \<noteq> cardYear (tsx_BookCard sampleYearZero)"
    by simp
  from implementations_agree [of noFilters sampleDocs ?net sampleState sampleAnthology] a
  have r4: "cardAuthors (jsx_BookCard sampleAnthology) \<noteq> cardAuthors (tsx_BookCard sampleAnthology)
            \<and> modalPublishers (jsx_BookModal sampleAnthology)
                \<noteq> modalPublishers (tsx_BookModal sampleAnthology)
            \<and> modalSubjects (jsx_BookModal sampleAnthology)
                \<noteq> modalSubjects (tsx_BookModal sampleAnthology)"
    by simp
  show ?thesis
    using e d p z a l c f sampleState_query r1 r2 r3 r4 r5 r6 r7 r8 by (intro conjI) simp_all
qed

subsection \<open>The filter stage\<close>

text \<open>
  C2: for every list of records and every filter criteria, the output of the filter stage
  is a sublist of the input list; with no filter active (\<open>hasEbook\<close> false, both year
  texts empty) the output is the input list.
\<close>

theorem filterStage_narrows:
  "subseq (tsx_filterStage f docs) docs \<and> subseq (jsx_filterStage f docs) docs
   \<and> (\<not> hasEbook f \<and> yearFrom f = [] \<and> yearTo f = [] \<longrightarrow>
        tsx_filterStage f docs = docs \<and> jsx_filterStage f docs = docs)"
  by (simp add: jsx_filterStage_eq tsx_filterStage_filter truthyStr_def)

text \<open>An instance on the sample records.\<close>

theorem filterStage_narrows_witness:
  "subseq (tsx_filterStage ebookOnly sampleDocs) sampleDocs
   \<and> tsx_filterStage ebookOnly sampleDocs = [sampleDune, sampleYearZero]
   \<and> \<not> hasEbook noFilters \<and> yearFrom noFilters = [] \<and> yearTo noFilters = []
   \<and> tsx_filterStage noFilters sampleDocs = sampleDocs
   \<and> jsx_filterStage noFilters sampleDocs = sampleDocs"
proof -
  have h: "\<not> hasEbook noFilters \<and> yearFrom noFilters = [] \<and> yearTo noFilters = []"
    by (simp add: noFilters_def)
  from filterStage_narrows [of ebookOnly sampleDocs]
  have a: "subseq (tsx_filterStage ebookOnly sampleDocs) sampleDocs"
    by blast
  from filterStage_narrows [of noFilters sampleDocs] h
  have b: "tsx_filterStage noFilters sampleDocs = sampleDocs
           \<and> jsx_filterStage noFilters sampleDocs = sampleDocs"
    by blast
  from a b h eval_ebookOnly show ?thesis by blast
qed

text \<open>
  C3: when \<open>hasEbook\<close> is set, the filter stage first keeps exactly the records whose
  \<open>ebook_access\<close> is the string \<open>borrowable\<close> or the string \<open>public\<close>, and
  passes them on to the year filters; with no year filter active that is the whole
  result. Every record of the result has one of the two values, and a record with no
  \<open>ebook_access\<close> is dropped.
\<close>

theorem hasEbook_retains_allow_list:
  "hasEbook f \<Longrightarrow>
     tsx_filterStage f docs =
       tsx_filterStage (f\<lparr>hasEbook := False\<rparr>)
         (filter (\<lambda>b. ebook_access b = Some ''borrowable'' \<or> ebook_access b = Some ''public'') docs)
   \<and> jsx_filterStage f docs =
       jsx_filterStage (f\<lparr>hasEbook := False\<rparr>)
         (filter (\<lambda>b. ebook_access b = Some ''borrowable'' \<or> ebook_access b = Some ''public'') docs)
   \<and> (yearFrom f = [] \<and> yearTo f = [] \<longrightarrow>
        tsx_filterStage f docs =
          filter (\<lambda>b. ebook_access b = Some ''borrowable'' \<or> ebook_access b = Some ''public'') docs
      \<and> jsx_filterStage f docs =
          filter (\<lambda>b. ebook_access b = Some ''borrowable'' \<or> ebook_access b = Some ''public'') docs)
   \<and> (\<forall>b \<in> set (tsx_filterStage f docs).
         ebook_access b = Some ''borrowable'' \<or> ebook_access b = Some ''public'')
   \<and> (\<forall>b \<in> set (jsx_filterStage f docs).
         ebook_access b = Some ''borrowable'' \<or> ebook_access b = Some ''public'')
   \<and> (ebook_access b = None \<longrightarrow>
         b \<notin> set (tsx_filterStage f docs) \<and> b \<notin> set (jsx_filterStage f docs))"
  by (auto simp add: jsx_filterStage_eq tsx_filterStage_filter truthyStr_def intro!: filter_cong)

text \<open>An instance on the sample records.\<close>

theorem hasEbook_retains_allow_list_witness:
  "hasEbook ebookOnly \<and> yearFrom ebookOnly = [] \<and> yearTo ebookOnly = []
   \<and> tsx_filterStage ebookOnly sampleDocs
       = filter (\<lambda>b. ebook_access b = Some ''borrowable'' \<or> ebook_access b = Some ''public'') sampleDocs
   \<and> tsx_filterStage ebookOnly sampleDocs = [sampleDune, sampleYearZero]
   \<and> ebook_access sampleBare = None
   \<and> sampleBare \<in> set sampleDocs
   \<and> sampleBare \<notin> set (tsx_filterStage ebookOnly sampleDocs)
   \<and> sampleBare \<notin> set (jsx_filterStage ebookOnly sampleDocs)"
proof -
  have h: "hasEbook ebookOnly"
    by (simp add: ebookOnly_def)
  have y: "yearFrom ebookOnly = [] \<and> yearTo ebookOnly = []"
    by (simp add: ebookOnly_def)
  have e: "ebook_access sampleBare = None"
    by (simp add: sampleBare_def)
  note t = hasEbook_retains_allow_list [OF h, of sampleDocs sampleBare]
  from t y have a: "tsx_filterStage ebookOnly sampleDocs
       = filter (\<lambda>b. ebook_access b = Some ''borrowable'' \<or> ebook_access b = Some ''public'') sampleDocs"
    by blast
  from t e have b: "sampleBare \<notin> set (tsx_filterStage ebookOnly sampleDocs)
                  \<and> sampleBare \<notin> set (jsx_filterStage ebookOnly sampleDocs)"
    by blast
  from h y e a b eval_ebookOnly sampleBare_in_docs show ?thesis by blast
qed

text \<open>
  C4: a record passes an active \<open>yearFrom\<close> filter only if its \<open>first_publish_year\<close>
  is present and at least the parsed bound, and an active \<open>yearTo\<close> filter only if it
  is present and at most the parsed bound; a record with no \<open>first_publish_year\<close> is
  dropped by either active year filter; with both filters active and the lower bound
  above the upper one the result is empty. The bounds are inclusive: a record whose year
  is not zero and equals both bounds is kept. The untyped component computes the same
  list.
\<close>

theorem year_filters_inclusive_bounds:
  "(truthyStr (yearFrom f) \<and> b \<in> set (tsx_filterStage f docs) \<longrightarrow>
      (\<exists>y n. first_publish_year b = Some y \<and> parseInt (yearFrom f) = Some n \<and> y \<ge> n))
   \<and> (truthyStr (yearTo f) \<and> b \<in> set (tsx_filterStage f docs) \<longrightarrow>
      (\<exists>y n. first_publish_year b = Some y \<and> parseInt (yearTo f) = Some n \<and> y \<le> n))
   \<and> ((truthyStr (yearFrom f) \<or> truthyStr (yearTo f)) \<and> first_publish_year b = None \<longrightarrow>
      b \<notin> set (tsx_filterStage f docs))
   \<and> (truthyStr (yearFrom f) \<and> truthyStr (yearTo f)
       \<and> parseInt (yearFrom f) = Some lo \<and> parseInt (yearTo f) = Some hi \<and> lo > hi \<longrightarrow>
      tsx_filterStage f docs = [])
   \<and> (\<not> hasEbook f \<and> b \<in> set docs \<and> first_publish_year b = Some y \<and> y \<noteq> 0
       \<and> parseInt (yearFrom f) = Some y \<and> parseInt (yearTo f) = Some y \<longrightarrow>
      b \<in> set (tsx_filterStage f docs))
   \<and> jsx_filterStage f docs = tsx_filterStage f docs"
  by (auto simp add: jsx_filterStage_eq tsx_filterStage_filter truthyNum_def numGe_def numLe_def
        filter_empty_conv split: option.splits)

text \<open>An instance on the sample records.\<close>

theorem year_filters_inclusive_bounds_witness:
  "truthyStr (yearFrom (yearsBetween ''1965'' ''1990''))
   \<and> truthyStr (yearTo (yearsBetween ''1965'' ''1990''))
   \<and> tsx_filterStage (yearsBetween ''1965'' ''1990'') sampleDocs = [sampleDune, sampleAnthology]
   \<and> first_publish_year sampleDune = Some 1965 \<and> parseInt ''1965'' = Some 1965
   \<and> first_publish_year sampleAnthology = Some 1990 \<and> parseInt ''1990'' = Some 1990
   \<and> first_publish_year sampleBare = None
   \<and> sampleBare \<in> set sampleDocs
   \<and> sampleBare \<notin> set (tsx_filterStage (yearsBetween ''1965'' ''1990'') sampleDocs)
   \<and> (1990::int) > 1965
   \<and> tsx_filterStage (yearsBetween ''1990'' ''1965'') sampleDocs = []
   \<and> \<not> hasEbook (yearsBetween ''1965'' ''1965'')
   \<and> sampleDune \<in> set (tsx_filterStage (yearsBetween ''1965'' ''1965'') sampleDocs)"
proof -
  have act: "truthyStr (yearFrom (yearsBetween ''1965'' ''1990''))
             \<and> truthyStr (yearTo (yearsBetween ''1965'' ''1990''))"
    by (simp add: yearsBetween_def truthyStr_def)
  have yrs: "first_publish_year sampleDune = Some 1965
             \<and> first_publish_year sampleAnthology = Some 1990
             \<and> first_publish_year sampleBare = None"
    by (simp add: sampleDune_def sampleAnthology_def sampleBare_def)
  from year_filters_inclusive_bounds
         [where f = "yearsBetween ''1965'' ''1990''" and b = sampleBare and docs = sampleDocs]
       act yrs
  have a: "sampleBare \<notin> set (tsx_filterStage (yearsBetween ''1965'' ''1990'') sampleDocs)"
    by blast
  have inv: "truthyStr (yearFrom (yearsBetween ''1990'' ''1965''))
             \<and> truthyStr (yearTo (yearsBetween ''1990'' ''1965''))
             \<and> parseInt (yearFrom (yearsBetween ''1990'' ''1965'')) = Some 1990
             \<and> parseInt (yearTo (yearsBetween ''1990'' ''1965'')) = Some 1965
             \<and> (1990::int) > 1965"
    by (simp add: yearsBetween_def truthyStr_def parseInt_1965 parseInt_1990)
  from year_filters_inclusive_bounds
         [where f = "yearsBetween ''1990'' ''1965''" and docs = sampleDocs
            and lo = 1990 and hi = 1965]
       inv
  have b: "tsx_filterStage (yearsBetween ''1990'' ''1965'') sampleDocs = []"
    by blast
  have eq: "\<not> hasEbook (yearsBetween ''1965'' ''1965'')
            \<and> first_publish_year sampleDune = Some 1965 \<and> (1965::int) \<noteq> 0
            \<and> parseInt (yearFrom (yearsBetween ''1965'' ''1965'')) = Some 1965
            \<and> parseInt (yearTo (yearsBetween ''1965'' ''1965'')) = Some 1965"
    by (simp add: yearsBetween_def parseInt_1965 sampleDune_def)
  from year_filters_inclusive_bounds
         [where f = "yearsBetween ''1965'' ''1965''" and b = sampleDune and docs = sampleDocs
            and y = 1965]
       eq sampleDune_in_docs
  have c: "sampleDune \<in> set (tsx_filterStage (yearsBetween ''1965'' ''1965'') sampleDocs)"
    by blast
  have gt: "(1990::int) > 1965" by simp
  from act yrs a b c eq gt eval_years_1965_1990 parseInt_1965 parseInt_1990 sampleBare_in_docs
  show ?thesis by blast
qed

text \<open>
  C5: when the text of \<open>yearFrom\<close> (or of \<open>yearTo\<close>) is not empty and \<open>parseInt\<close>
  finds no number in it, the filter stage returns the empty list, whatever the input.
\<close>

theorem unparsable_bound_excludes_all:
  "(truthyStr (yearFrom f) \<and> parseInt (yearFrom f) = None)
     \<or> (truthyStr (yearTo f) \<and> parseInt (yearTo f) = None)
   \<Longrightarrow> tsx_filterStage f docs = [] \<and> jsx_filterStage f docs = []"
  by (auto simp add: jsx_filterStage_eq tsx_filterStage_filter numGe_def numLe_def
        filter_empty_conv split: option.splits)

text \<open>An instance on the sample records.\<close>

theorem unparsable_bound_excludes_all_witness:
  "truthyStr (yearFrom (yearsBetween ''abc'' [])) \<and> parseInt (yearFrom (yearsBetween ''abc'' [])) = None
   \<and> tsx_filterStage (yearsBetween ''abc'' []) sampleDocs = []
   \<and> jsx_filterStage (yearsBetween ''abc'' []) sampleDocs = []
   \<and> truthyStr (yearTo (yearsBetween [] ''.5'')) \<and> parseInt (yearTo (yearsBetween [] ''.5'')) = None
   \<and> tsx_filterStage (yearsBetween [] ''.5'') sampleDocs = []
   \<and> jsx_filterStage (yearsBetween [] ''.5'') sampleDocs = []"
proof -
  have h1: "truthyStr (yearFrom (yearsBetween ''abc'' []))
            \<and> parseInt (yearFrom (yearsBetween ''abc'' [])) = None"
    by (simp add: yearsBetween_def truthyStr_def parseInt_abc)
  have h2: "truthyStr (yearTo (yearsBetween [] ''.5''))
            \<and> parseInt (yearTo (yearsBetween [] ''.5'')) = None"
    by (simp add: yearsBetween_def truthyStr_def parseInt_dot5)
  from h1 have a: "tsx_filterStage (yearsBetween ''abc'' []) sampleDocs = []
                   \<and> jsx_filterStage (yearsBetween ''abc'' []) sampleDocs = []"
    by (intro unparsable_bound_excludes_all disjI1)
  from h2 have b: "tsx_filterStage (yearsBetween [] ''.5'') sampleDocs = []
                   \<and> jsx_filterStage (yearsBetween [] ''.5'') sampleDocs = []"
    by (intro unparsable_bound_excludes_all disjI2)
  from h1 h2 a b show ?thesis by blast
qed

text \<open>
  C9: a record whose \<open>first_publish_year\<close> is present and equal to 0 is dropped by any
  active year filter, whatever the bound: the presence of the year is tested by the
  truthiness of the number.
\<close>

theorem year_zero_dropped:
  "first_publish_year b = Some 0 \<Longrightarrow> truthyStr (yearFrom f) \<or> truthyStr (yearTo f) \<Longrightarrow>
     b \<notin> set (tsx_filterStage f docs) \<and> b \<notin> set (jsx_filterStage f docs)"
  by (auto simp add: jsx_filterStage_eq tsx_filterStage_filter truthyNum_def)

text \<open>An instance on the sample records.\<close>

theorem year_zero_dropped_witness:
  "first_publish_year sampleYearZero = Some 0
   \<and> truthyStr (yearFrom (yearsBetween ''-5'' []))
   \<and> parseInt (yearFrom (yearsBetween ''-5'' [])) = Some (- 5) \<and> (- 5 :: int) \<le> 0
   \<and> sampleYearZero \<in> set sampleDocs
   \<and> sampleYearZero \<notin> set (tsx_filterStage (yearsBetween ''-5'' []) sampleDocs)
   \<and> sampleYearZero \<notin> set (jsx_filterStage (yearsBetween ''-5'' []) sampleDocs)
   \<and> tsx_filterStage (yearsBetween ''-5'' []) sampleDocs = [sampleDune, sampleAnthology]"
proof -
  have z: "first_publish_year sampleYearZero = Some 0"
    by (simp add: sampleYearZero_def)
  have act: "truthyStr (yearFrom (yearsBetween ''-5'' []))"
    by (simp add: yearsBetween_def truthyStr_def)
  have p: "parseInt (yearFrom (yearsBetween ''-5'' [])) = Some (- 5) \<and> (- 5 :: int) \<le> 0"
    by (simp add: yearsBetween_def parseInt_minus5)
  from act have "truthyStr (yearFrom (yearsBetween ''-5'' []))
                 \<or> truthyStr (yearTo (yearsBetween ''-5'' []))" ..
  with z have d: "sampleYearZero \<notin> set (tsx_filterStage (yearsBetween ''-5'' []) sampleDocs)
                \<and> sampleYearZero \<notin> set (jsx_filterStage (yearsBetween ''-5'' []) sampleDocs)"
    by (rule year_zero_dropped)
  from z act p d sampleYearZero_in_docs eval_years_from_minus5 show ?thesis by blast
qed

subsection \<open>The search action\<close>

text \<open>
  C6: when the query text is empty or is made of white-space characters only (any
  sequence of the characters that \<open>trim\<close> strips), the search action (the button or
  the Enter key) requests nothing and returns the state as it was.
\<close>

theorem blank_query_is_noop:
  "set ws \<subseteq> set whiteSpace \<Longrightarrow> searchQuery s = concat ws \<Longrightarrow>
     tsx_handleSearch net s = (s, []) \<and> jsx_handleSearch net s = (s, [])
     \<and> tsx_handleKeyPress k net s = (s, []) \<and> jsx_handleKeyPress k net s = (s, [])"
  using trim_blank [of ws]
  by (simp add: tsx_handleSearch_def jsx_handleSearch_def tsx_handleKeyPress_def
        jsx_handleKeyPress_def truthyStr_def)

text \<open>
  An instance on a state in which no field has its initial value: results are shown, a
  record is selected, a filter is set, and the query holds a no-break space, a space, an
  ideographic space, a tab and a byte-order mark. The search leaves all of it in place.
\<close>

theorem blank_query_is_noop_witness:
  "list_all (\<lambda>w. w \<in> set whiteSpace) sampleBlanks
   \<and> searchQuery sampleBusyState = concat sampleBlanks
   \<and> tsx_handleSearch (netReturns (Data (Some sampleDocs))) sampleBusyState = (sampleBusyState, [])
   \<and> jsx_handleSearch (netReturns (Data (Some sampleDocs))) sampleBusyState = (sampleBusyState, [])
   \<and> tsx_handleKeyPress ''Enter'' (netReturns (Data (Some sampleDocs))) sampleBusyState
       = (sampleBusyState, [])
   \<and> books (fst (tsx_handleSearch (netReturns (Data (Some sampleDocs))) sampleBusyState))
       = [Some sampleDune]
   \<and> error (fst (tsx_handleSearch (netReturns (Data (Some sampleDocs))) sampleBusyState))
       = ''No books found. Try a different search term.''
   \<and> loading (fst (tsx_handleSearch (netReturns (Data (Some sampleDocs))) sampleBusyState))
   \<and> selectedBook (fst (tsx_handleSearch (netReturns (Data (Some sampleDocs))) sampleBusyState))
       = Some sampleDune
   \<and> filters (fst (tsx_handleSearch (netReturns (Data (Some sampleDocs))) sampleBusyState))
       = ebookOnly
   \<and> tsx_handleSearch (netReturns (Data (Some sampleDocs))) (sampleState\<lparr>searchQuery := []\<rparr>)
       = (sampleState\<lparr>searchQuery := []\<rparr>, [])"
proof -
  let ?net = "netReturns (Data (Some sampleDocs))"
  have h0: "list_all (\<lambda>w. w \<in> set whiteSpace) sampleBlanks"
    by (simp add: sampleBlanks_def whiteSpace_def)
  then have h1: "set sampleBlanks \<subseteq> set whiteSpace"
    by (auto simp only: list_all_iff)
  have q1: "searchQuery sampleBusyState = concat sampleBlanks"
    by (simp add: sampleBusyState_def)
  have h2: "set ([] :: string list) \<subseteq> set whiteSpace"
    by simp
  have q2: "searchQuery (sampleState\<lparr>searchQuery := []\<rparr>) = concat ([] :: string list)"
    by simp
  note n1 = blank_query_is_noop [OF h1 q1, of ?net "''Enter''"]
  note n2 = blank_query_is_noop [OF h2 q2, of ?net "''Enter''"]
  have fields:
    "books sampleBusyState = [Some sampleDune]
     \<and> error sampleBusyState = ''No books found. Try a different search term.''
     \<and> loading sampleBusyState
     \<and> selectedBook sampleBusyState = Some sampleDune
     \<and> filters sampleBusyState = ebookOnly"
    by (simp add: sampleBusyState_def)
  from n1 fields have after:
    "books (fst (tsx_handleSearch ?net sampleBusyState)) = [Some sampleDune]
     \<and> error (fst (tsx_handleSearch ?net sampleBusyState))
         = ''No books found. Try a different search term.''
     \<and> loading (fst (tsx_handleSearch ?net sampleBusyState))
     \<and> selectedBook (fst (tsx_handleSearch ?net sampleBusyState)) = Some sampleDune
     \<and> filters (fst (tsx_handleSearch ?net sampleBusyState)) = ebookOnly"
    by simp
  show ?thesis
    using h0 q1 n1 n2 after by (intro conjI) simp_all
qed




text \<open>
  C10: when the body holds at least one record and the active filters remove them all,
  the search ends with an empty result list and an empty error text, so that no error
  banner is rendered; a body with an empty \<open>docs\<close>, in the same state, ends with the
  \<open>no results\<close> banner.
\<close>

theorem all_filtered_out_no_message:
  assumes "truthyStr (trim (searchQuery s))"
    and "net (tsx_searchUrl s) = Data (Some ds)" and "ds \<noteq> []"
    and "tsx_filterStage (filters s) ds = []"
  shows "(let s' = fst (tsx_handleSearch net s) in
            books s' = [] \<and> error s' = [] \<and> \<not> loading s' \<and> pageError (tsx_render s') = None)
       \<and> (let s' = fst (jsx_handleSearch net s) in
            books s' = [] \<and> error s' = [] \<and> \<not> loading s' \<and> pageError (jsx_render s') = None)
       \<and> (let s' = fst (tsx_handleSearch (netReturns (Data (Some []))) s) in
            books s' = []
            \<and> pageError (tsx_render s') = Some ''No books found. Try a different search term.'')
       \<and> (let s' = fst (jsx_handleSearch (netReturns (Data (Some []))) s) in
            books s' = []
            \<and> pageError (jsx_render s') = Some ''No books found. Try a different search term.'')"
  using assms
  by (simp add: tsx_handleSearch_def jsx_handleSearch_def jsx_searchUrl_eq jsx_filterStage_eq
        tsx_render_def jsx_render_def netReturns_def truthyStr_def Let_def)

text \<open>An instance on the sample records.\<close>

theorem all_filtered_out_no_message_witness:
  "truthyStr (trim (searchQuery (sampleState\<lparr>filters := yearsBetween ''2000'' []\<rparr>)))
   \<and> sampleDocs \<noteq> []
   \<and> tsx_filterStage (filters (sampleState\<lparr>filters := yearsBetween ''2000'' []\<rparr>)) sampleDocs = []
   \<and> books (fst (tsx_handleSearch (netReturns (Data (Some sampleDocs)))
                    (sampleState\<lparr>filters := yearsBetween ''2000'' []\<rparr>))) = []
   \<and> error (fst (tsx_handleSearch (netReturns (Data (Some sampleDocs)))
                    (sampleState\<lparr>filters := yearsBetween ''2000'' []\<rparr>))) = []
   \<and> pageError (tsx_render (fst (tsx_handleSearch (netReturns (Data (Some sampleDocs)))
                    (sampleState\<lparr>filters := yearsBetween ''2000'' []\<rparr>)))) = None
   \<and> pageError (jsx_render (fst (jsx_handleSearch (netReturns (Data (Some sampleDocs)))
                    (sampleState\<lparr>filters := yearsBetween ''2000'' []\<rparr>)))) = None
   \<and> pageError (tsx_render (fst (tsx_handleSearch (netReturns (Data (Some [])))
                    (sampleState\<lparr>filters := yearsBetween ''2000'' []\<rparr>))))
       = Some ''No books found. Try a different search term.''"
proof -
  let ?s = "sampleState\<lparr>filters := yearsBetween ''2000'' []\<rparr>"
  have q: "truthyStr (trim (searchQuery ?s))"
    using sampleState_query by simp
  have n: "netReturns (Data (Some sampleDocs)) (tsx_searchUrl ?s) = Data (Some sampleDocs)"
    by (simp add: netReturns_def)
  have ne: "sampleDocs \<noteq> []"
    by (simp add: sampleDocs_def)
  have e: "tsx_filterStage (filters ?s) sampleDocs = []"
    by (simp add: eval_years_from_2000)
  from all_filtered_out_no_message
         [where net = "netReturns (Data (Some sampleDocs))" and s = ?s and ds = sampleDocs,
          OF q n ne e]
       q ne e
  show ?thesis by (simp add: Let_def)
qed

subsection \<open>The eBook badge\<close>

text \<open>
  C8: the card shows the eBook badge exactly when \<open>ebook_access\<close> is not the string
  \<open>no_ebook\<close>, so a record with no \<open>ebook_access\<close> has the badge; the detail view
  shows \<open>Available\<close> under the same condition. The condition is looser than the allow
  list of the \<open>hasEbook\<close> filter: every record the filter keeps has the badge, and a
  record whose value is none of \<open>no_ebook\<close>, \<open>borrowable\<close>, \<open>public\<close> has the
  badge and is dropped by the filter.
\<close>

theorem ebook_badge_looser_than_filter:
  "(cardBadge (tsx_BookCard b) \<longleftrightarrow> ebook_access b \<noteq> Some ''no_ebook'')
   \<and> (ebook_access b = None \<longrightarrow> cardBadge (tsx_BookCard b))
   \<and> (modalEbook (tsx_BookModal b) = ''Available'' \<longleftrightarrow> ebook_access b \<noteq> Some ''no_ebook'')
   \<and> (ebook_access b = None \<longrightarrow> modalEbook (tsx_BookModal b) = ''Available'')
   \<and> (ebook_access b = Some ''borrowable'' \<or> ebook_access b = Some ''public'' \<longrightarrow>
        cardBadge (tsx_BookCard b))
   \<and> (hasEbook f \<and> ebook_access b \<noteq> Some ''no_ebook'' \<and> ebook_access b \<noteq> Some ''borrowable''
        \<and> ebook_access b \<noteq> Some ''public'' \<longrightarrow>
        cardBadge (tsx_BookCard b) \<and> b \<notin> set (tsx_filterStage f docs))"
  by (auto simp add: tsx_BookCard_def tsx_BookModal_def tsx_filterStage_filter)

text \<open>An instance on the sample records.\<close>

theorem ebook_badge_looser_than_filter_witness:
  "ebook_access sampleBare = None
   \<and> cardBadge (tsx_BookCard sampleBare)
   \<and> modalEbook (tsx_BookModal sampleBare) = ''Available''
   \<and> hasEbook ebookOnly
   \<and> sampleBare \<in> set sampleDocs
   \<and> sampleBare \<notin> set (tsx_filterStage ebookOnly sampleDocs)
   \<and> ebook_access sampleAnthology = Some ''no_ebook''
   \<and> \<not> cardBadge (tsx_BookCard sampleAnthology)
   \<and> modalEbook (tsx_BookModal sampleAnthology) \<noteq> ''Available''
   \<and> ebook_access sampleDune = Some ''borrowable''
   \<and> cardBadge (tsx_BookCard sampleDune)"
proof -
  have e1: "ebook_access sampleBare = None"
    by (simp add: sampleBare_def)
  have e2: "ebook_access sampleAnthology = Some ''no_ebook''"
    by (simp add: sampleAnthology_def)
  have e3: "ebook_access sampleDune = Some ''borrowable''"
    by (simp add: sampleDune_def)
  have h: "hasEbook ebookOnly"
    by (simp add: ebookOnly_def)
  have m: "sampleBare \<in> set sampleDocs"
    by (simp add: sampleDocs_def)
  from ebook_badge_looser_than_filter [of sampleBare ebookOnly sampleDocs] e1 h
  have a: "cardBadge (tsx_BookCard sampleBare)
           \<and> modalEbook (tsx_BookModal sampleBare) = ''Available''
           \<and> sampleBare \<notin> set (tsx_filterStage ebookOnly sampleDocs)"
    by simp
  from ebook_badge_looser_than_filter [of sampleAnthology ebookOnly sampleDocs] e2
  have b: "\<not> cardBadge (tsx_BookCard sampleAnthology)
           \<and> modalEbook (tsx_BookModal sampleAnthology) \<noteq> ''Available''"
    by simp
  from ebook_badge_looser_than_filter [of sampleDune ebookOnly sampleDocs] e3
  have c: "cardBadge (tsx_BookCard sampleDune)"
    by simp
  from e1 e2 e3 h m a b c show ?thesis by blast
qed

end
